theory Spec2Isabelle
  imports Complex_Main
begin

section \<open>Data model of DelaunayVoronoiCreator.py\<close>

text \<open>
  The script keeps a list of 2-D points (\<open>current_points\<close>), one matplotlib axes object
  and the standard output. Coordinates are only stored and handed on, never computed
  with, so a coordinate is a \<^typ>\<open>real\<close> here.

  The geometric routines (\<open>scipy.spatial.Delaunay\<close>, \<open>scipy.spatial.Voronoi\<close>,
  \<open>voronoi_plot_2d\<close>) and the random number generator (\<open>numpy.random\<close>) are external
  libraries: the script only calls them. They are parameters of the model.
\<close>

type_synonym point = "real \<times> real"

text \<open>A row of \<open>tri.simplices\<close>: three indices into the point array.\<close>

type_synonym simplex = "int \<times> int \<times> int"

text \<open>
  Exceptions: \<open>IndexError\<close> of Python and numpy indexing, and whatever a library call
  raises (with its message). Both are subclasses of \<open>Exception\<close>.
\<close>

datatype exn = IndexError | LibraryError string

text \<open>
  The titles the script sets: line 76, the f-string of line 87 (\<open>frame + 1\<close> and
  \<open>len(current_points)\<close>) and the f-string of line 107 (\<open>frame + 1\<close> and the exception).
\<close>

datatype title =
    NoTitle
  | Banner
  | StepTitle int nat
  | DelaunayFailed int exn

text \<open>The line printed at line 105 (\<open>frame\<close> and the exception).\<close>

datatype message = VoronoiFailed int exn

text \<open>
  What is drawn on the axes: \<open>ax.plot(xs, ys, fmt)\<close> adds a line with the given
  coordinates and format string; \<open>voronoi_plot_2d\<close> adds artists of its own.
\<close>

datatype 'g artist = Line "real list" "real list" string | VoronoiArtist 'g

record 'g axes =
  xlim :: "(real \<times> real) option"
  ylim :: "(real \<times> real) option"
  aspect_equal :: bool
  ax_title :: title
  artists :: "'g artist list"

record 'g state =
  current_points :: "point list"
  ax :: "'g axes"
  stdout :: "message list"

text \<open>
  The external geometry library: \<open>Delaunay(pts)\<close> returns the simplices or raises;
  \<open>Voronoi(pts)\<close> returns a diagram or raises; \<open>voronoi_plot_2d(vor, ax=ax, ...)\<close> adds
  artists to the axes, at its end sets the limits of both axes to bounds of its own,
  and may raise on the way. Its result here: the artists added, the limits set (the
  x-limits and the y-limits, \<open>None\<close> if it did not get that far) and the exception
  raised, if any.
\<close>

record ('v, 'g) spatial =
  Delaunay :: "point list \<Rightarrow> exn + simplex list"
  Voronoi :: "point list \<Rightarrow> exn + 'v"
  voronoi_plot_2d :: "'v \<Rightarrow> 'g list \<times> ((real \<times> real) \<times> (real \<times> real)) option \<times> exn option"

text \<open>
  The external random number generator with a global state of type \<open>'r\<close>:
  \<open>np.random.seed(s)\<close> replaces the global state by one computed from \<open>s\<close>;
  one uniform draw returns a float and the next state.
\<close>

record 'r np_random =
  seed :: "int \<Rightarrow> 'r"
  random_sample :: "'r \<Rightarrow> real \<times> 'r"

section \<open>Module level (lines 36--46)\<close>

definition POINT_COUNT :: nat where
  "POINT_COUNT = 1000"

definition ANIMATION_INTERVAL_MS :: nat where
  "ANIMATION_INTERVAL_MS = 500"

text \<open>\<open>np.random.rand(n, 2)\<close>: \<open>n\<close> rows of two successive draws each.\<close>

fun rand2 :: "'r np_random \<Rightarrow> nat \<Rightarrow> 'r \<Rightarrow> point list \<times> 'r" where
  "rand2 g 0 r = ([], r)"
| "rand2 g (Suc n) r =
     (case random_sample g r of (x, r1) \<Rightarrow>
        (case random_sample g r1 of (y, r2) \<Rightarrow>
           (case rand2 g n r2 of (rows, r3) \<Rightarrow> ((x, y) # rows, r3))))"

definition seed_points :: "point list" where
  "seed_points = [(0.2, 0.2), (0.8, 0.2), (0.5, 0.8)]"

text \<open>
  \<open>all_points\<close> as the module computes it when it is loaded with the global generator
  in state \<open>r0\<close>: line 36 seeds the generator with 42, lines 41--46 build the array.
\<close>

definition all_points :: "'r np_random \<Rightarrow> 'r \<Rightarrow> point list" where
  "all_points g r0 =
     (let r1 = seed g 42;
          generated = fst (rand2 g POINT_COUNT r1)
      in seed_points @ generated)"

section \<open>Indexing\<close>

text \<open>
  \<open>a[i]\<close> for an integer \<open>i\<close> on a Python list or along the first axis of a numpy
  array of \<open>n\<close> rows: \<open>0 \<le> i < n\<close> selects row \<open>i\<close>, \<open>-n \<le> i < 0\<close> selects row
  \<open>n + i\<close>, every other \<open>i\<close> raises \<open>IndexError\<close>.
\<close>

definition np_index :: "'a list \<Rightarrow> int \<Rightarrow> exn + 'a" where
  "np_index xs i =
     (if 0 \<le> i \<and> i < int (length xs) then Inr (xs ! nat i)
      else if - int (length xs) \<le> i \<and> i < 0 then Inr (xs ! nat (int (length xs) + i))
      else Inl IndexError)"

text \<open>\<open>pts[triangle]\<close>: the three rows of \<open>pts\<close> a simplex names.\<close>

definition rows_of :: "point list \<Rightarrow> simplex \<Rightarrow> exn + point list" where
  "rows_of pts t =
     (case t of (i, j, k) \<Rightarrow>
        (case np_index pts i of
           Inl e \<Rightarrow> Inl e
         | Inr a \<Rightarrow>
             (case np_index pts j of
                Inl e \<Rightarrow> Inl e
              | Inr b \<Rightarrow>
                  (case np_index pts k of
                     Inl e \<Rightarrow> Inl e
                   | Inr c \<Rightarrow> Inr [a, b, c]))))"

section \<open>The axes\<close>

text \<open>\<open>ax.clear()\<close>: limits, aspect, title and artists go back to their defaults.\<close>

definition ax_clear :: "'g axes" where
  "ax_clear = \<lparr>xlim = None, ylim = None, aspect_equal = False, ax_title = NoTitle, artists = []\<rparr>"

text \<open>\<open>configure_axes\<close> (lines 49--52).\<close>

definition configure_axes :: "'g axes \<Rightarrow> 'g axes" where
  "configure_axes a = a\<lparr>xlim := Some (0, 1), ylim := Some (0, 1), aspect_equal := True\<rparr>"

text \<open>\<open>ax.plot(xs, ys, fmt)\<close>.\<close>

definition ax_plot :: "real list \<Rightarrow> real list \<Rightarrow> string \<Rightarrow> 'g axes \<Rightarrow> 'g axes" where
  "ax_plot xs ys fmt a = a\<lparr>artists := artists a @ [Line xs ys fmt]\<rparr>"

section \<open>The update callback (lines 80--108)\<close>

text \<open>
  The loop of lines 96--99. For each simplex: take its three rows, close the polygon
  with the first row again (\<open>np.vstack\<close>), plot it in blue. An \<open>IndexError\<close> of
  \<open>pts[triangle]\<close> leaves the loop; the lines plotted before it stay on the axes.
\<close>

fun plot_simplices :: "point list \<Rightarrow> simplex list \<Rightarrow> 'g axes \<Rightarrow> 'g axes \<times> exn option" where
  "plot_simplices pts [] a = (a, None)"
| "plot_simplices pts (triangle # rest) a =
     (case rows_of pts triangle of
        Inl e \<Rightarrow> (a, Some e)
      | Inr simplex0 \<Rightarrow>
          (let simplex = simplex0 @ [hd simplex0]
           in plot_simplices pts rest (ax_plot (map fst simplex) (map snd simplex) ''b-'' a)))"

text \<open>
  The inner \<open>try\<close> of lines 101--105: the Voronoi diagram is computed and plotted;
  any exception is caught and reported on standard output.
\<close>

definition draw_voronoi ::
  "('v, 'g) spatial \<Rightarrow> int \<Rightarrow> point list \<Rightarrow> 'g axes \<times> message list \<Rightarrow> 'g axes \<times> message list" where
  "draw_voronoi lib frame pts s =
     (case s of (a, out) \<Rightarrow>
        (case Voronoi lib pts of
           Inl e \<Rightarrow> (a, out @ [VoronoiFailed frame e])
         | Inr vor \<Rightarrow>
             (case voronoi_plot_2d lib vor of (gs, bounds, r) \<Rightarrow>
                (let a1 = a\<lparr>artists := artists a @ map VoronoiArtist gs\<rparr>;
                     a2 = (case bounds of
                             None \<Rightarrow> a1
                           | Some (xl, yl) \<Rightarrow> a1\<lparr>xlim := Some xl, ylim := Some yl\<rparr>)
                 in (case r of
                       None \<Rightarrow> (a2, out)
                     | Some e \<Rightarrow> (a2, out @ [VoronoiFailed frame e]))))))"

text \<open>
  The outer \<open>try\<close> of lines 93--107: the Delaunay triangulation is computed and
  drawn, then the Voronoi diagram; any exception of the triangulation or of the loop
  is caught and reported in the title.
\<close>

definition draw_delaunay ::
  "('v, 'g) spatial \<Rightarrow> int \<Rightarrow> point list \<Rightarrow> 'g axes \<times> message list \<Rightarrow> 'g axes \<times> message list" where
  "draw_delaunay lib frame pts s =
     (case s of (a, out) \<Rightarrow>
        (case Delaunay lib pts of
           Inl e \<Rightarrow> (a\<lparr>ax_title := DelaunayFailed (frame + 1) e\<rparr>, out)
         | Inr simplices \<Rightarrow>
             (case plot_simplices pts simplices a of
                (a', Some e) \<Rightarrow> (a'\<lparr>ax_title := DelaunayFailed (frame + 1) e\<rparr>, out)
              | (a', None) \<Rightarrow> draw_voronoi lib frame pts (a', out))))"

text \<open>
  \<open>update(frame)\<close>. \<open>all_points[frame]\<close> is evaluated first: if it raises, nothing has
  been changed and the exception leaves \<open>update\<close> (\<open>Inl\<close>). Otherwise the point is
  appended, the axes are cleared and redrawn, and \<open>update\<close> returns (\<open>Inr\<close> the state).
\<close>

definition update :: "('v, 'g) spatial \<Rightarrow> point list \<Rightarrow> int \<Rightarrow> 'g state \<Rightarrow> exn + 'g state" where
  "update lib points frame st =
     (case np_index points frame of
        Inl e \<Rightarrow> Inl e
      | Inr p \<Rightarrow>
          (let cur = current_points st @ [p];
               a1 = configure_axes ax_clear;
               a2 = a1\<lparr>ax_title := StepTitle (frame + 1) (length cur)\<rparr>;
               pts = cur;
               a3 = ax_plot (map fst pts) (map snd pts) ''ro'' a2
           in if length pts \<ge> 3
              then (case draw_delaunay lib frame pts (a3, stdout st) of
                      (a4, out) \<Rightarrow> Inr \<lparr>current_points = cur, ax = a4, stdout = out\<rparr>)
              else Inr \<lparr>current_points = cur, ax = a3, stdout = stdout st\<rparr>))"

section \<open>The animation (lines 73--111)\<close>

text \<open>The state \<open>main\<close> sets up before the animation starts (lines 74--78).\<close>

definition init_state :: "'g state" where
  "init_state =
     \<lparr>current_points = [],
      ax = (configure_axes ax_clear)\<lparr>ax_title := Banner\<rparr>,
      stdout = []\<rparr>"

text \<open>
  Calling \<open>update\<close> on a sequence of frames, one after the other; an exception that
  leaves \<open>update\<close> ends the run.
\<close>

fun run_frames ::
  "('v, 'g) spatial \<Rightarrow> point list \<Rightarrow> int list \<Rightarrow> 'g state \<Rightarrow> exn + 'g state" where
  "run_frames lib points [] st = Inr st"
| "run_frames lib points (frame # frames) st =
     (case update lib points frame st of
        Inl e \<Rightarrow> Inl e
      | Inr st' \<Rightarrow> run_frames lib points frames st')"

text \<open>
  The arguments \<open>update\<close> is called with by \<open>FuncAnimation(fig, update, frames=n,
  repeat=False)\<close> of line 110. No \<open>init_func\<close> is passed, so matplotlib draws the first
  frame once to initialise the figure, calling \<open>update(0)\<close>, and then steps through
  the frames \<open>0, 1, ..., n - 1\<close>: the calls are \<open>0, 0, 1, ..., n - 1\<close>. With no frame
  there is no call. The calls up to and including frame \<open>f\<close> are
  \<open>frame_seq (Suc f)\<close>.
\<close>

definition frame_seq :: "nat \<Rightarrow> int list" where
  "frame_seq n = (if n = 0 then [] else 0 # map int [0..<n])"

definition main :: "('v, 'g) spatial \<Rightarrow> 'r np_random \<Rightarrow> 'r \<Rightarrow> exn + 'g state" where
  "main lib g r0 =
     (let points = all_points g r0
      in run_frames lib points (frame_seq (length points)) init_state)"

section \<open>Observing the triangulation of a frame\<close>

text \<open>
  The triangulation drawn on the axes: the lines plotted with format \<open>'b-'\<close>
  (line 99), in the order they were plotted.
\<close>

definition is_blue :: "'g artist \<Rightarrow> bool" where
  "is_blue x = (case x of Line xs ys fmt \<Rightarrow> fmt = ''b-'' | VoronoiArtist g \<Rightarrow> False)"

definition drawn_triangulation :: "'g axes \<Rightarrow> 'g artist list" where
  "drawn_triangulation a = filter is_blue (artists a)"

text \<open>The artists \<open>voronoi_plot_2d\<close> has added.\<close>

definition is_voronoi :: "'g artist \<Rightarrow> bool" where
  "is_voronoi x = (case x of Line xs ys fmt \<Rightarrow> False | VoronoiArtist g \<Rightarrow> True)"

text \<open>
  The reference the frames are compared with, following the specification's words
  ("recomputing the full triangulation from scratch"): given only a point list, what
  one triangulation of it draws. Fewer than three points or a failing library call
  draw nothing; otherwise each simplex is drawn as a closed polygon, up to the first
  simplex that names a row out of range.
\<close>

definition polygon :: "point list \<Rightarrow> simplex \<Rightarrow> 'g artist option" where
  "polygon pts t =
     (case rows_of pts t of
        Inl e \<Rightarrow> None
      | Inr r \<Rightarrow> Some (Line (map fst (r @ [hd r])) (map snd (r @ [hd r])) ''b-''))"

fun polygons :: "point list \<Rightarrow> simplex list \<Rightarrow> 'g artist list" where
  "polygons pts [] = []"
| "polygons pts (t # ts) = (case polygon pts t of None \<Rightarrow> [] | Some l \<Rightarrow> l # polygons pts ts)"

definition triangulation_from_scratch :: "('v, 'g) spatial \<Rightarrow> point list \<Rightarrow> 'g artist list" where
  "triangulation_from_scratch lib pts =
     (if length pts < 3 then []
      else case Delaunay lib pts of Inl e \<Rightarrow> [] | Inr simplices \<Rightarrow> polygons pts simplices)"

section \<open>Library behaviours for concrete runs\<close>

text \<open>
  Three behaviours of the external library, used to run the model on concrete inputs:
  one whose triangulation raises (as Qhull does on a flat configuration, the case
  line 107 names), one that returns a fan of triangles around the last point and a
  diagram, and one that returns the fan but whose Voronoi routine raises.
\<close>

definition lib_raising :: "(unit, unit) spatial" where
  "lib_raising =
     \<lparr>Delaunay = (\<lambda>pts. Inl (LibraryError ''QhullError'')),
      Voronoi = (\<lambda>pts. Inl (LibraryError ''QhullError'')),
      voronoi_plot_2d = (\<lambda>vor. ([], None, None))\<rparr>"

definition fan :: "point list \<Rightarrow> exn + simplex list" where
  "fan pts =
     (if length pts = 3 then Inr [(0, 1, 2)]
      else if length pts = 4 then Inr [(0, 1, 3), (1, 2, 3), (2, 0, 3)]
      else Inl (LibraryError ''QhullError''))"

definition lib_fan :: "(unit, unit) spatial" where
  "lib_fan =
     \<lparr>Delaunay = fan,
      Voronoi = (\<lambda>pts. Inr ()),
      voronoi_plot_2d = (\<lambda>vor. ([()], Some ((0.14, 0.86), (0.14, 0.86)), None))\<rparr>"

definition lib_fan_no_voronoi :: "(unit, unit) spatial" where
  "lib_fan_no_voronoi =
     \<lparr>Delaunay = fan,
      Voronoi = (\<lambda>pts. Inl (LibraryError ''QhullError'')),
      voronoi_plot_2d = (\<lambda>vor. ([], None, None))\<rparr>"

text \<open>Point lists for concrete runs: the script's seed and one more point; a collinear seed.\<close>

definition seed_and_centre :: "point list" where
  "seed_and_centre = seed_points @ [(0.5, 0.5)]"

definition collinear_seed :: "point list" where
  "collinear_seed = [(0, 0), (1, 0), (2, 0)]"

text \<open>
  States for concrete calls of \<open>update\<close>, each obtained from the initial state by
  calls of \<open>update\<close> itself: after \<open>update(0)\<close> on the script's seed, after
  \<open>update(0)\<close> and \<open>update(1)\<close> on it, and after \<open>update(0)\<close> and \<open>update(1)\<close> on the
  collinear seed. (No library routine is called in these calls.)
\<close>

definition one_point_state :: "unit state" where
  "one_point_state = projr (run_frames lib_raising seed_points [0] init_state)"

definition two_seed_state :: "unit state" where
  "two_seed_state = projr (run_frames lib_raising seed_points [0, 1] init_state)"

definition two_collinear_state :: "unit state" where
  "two_collinear_state = projr (run_frames lib_raising collinear_seed [0, 1] init_state)"

text \<open>
  Collinearity of three points as the specification's orientation predicate has it
  (section 4.1): the cross product of the two edge vectors is zero.
\<close>

definition collinear :: "point \<Rightarrow> point \<Rightarrow> point \<Rightarrow> bool" where
  "collinear a b c =
     ((fst b - fst a) * (snd c - snd a) - (snd b - snd a) * (fst c - fst a) = 0)"

text \<open>
  The collinear seed followed by a point off its line, and the state the calls
  \<open>0, 0, 1\<close> of the driver lead to on this array when the triangulation raises.
\<close>

definition collinear_seed_and_apex :: "point list" where
  "collinear_seed_and_apex = collinear_seed @ [(0, 1)]"

definition flat_run_state :: "unit state" where
  "flat_run_state = projr (run_frames lib_raising collinear_seed_and_apex (frame_seq 2) init_state)"



section \<open>Auxiliary facts\<close>


lemma plot_simplices_artists:
  "plot_simplices pts ts a = (a', r) \<Longrightarrow> artists a' = artists a @ polygons pts ts"
proof (induction ts arbitrary: a)
  case Nil
  then show ?case by simp
next
  case (Cons t ts)
  show ?case
  proof (cases "rows_of pts t")
    case (Inl e)
    with Cons.prems show ?thesis by (simp add: polygon_def)
  next
    case (Inr r)
    with Cons.prems Cons.IH[of "ax_plot (map fst (r @ [hd r])) (map snd (r @ [hd r])) ''b-'' a"]
    show ?thesis by (simp add: polygon_def Let_def ax_plot_def)
  qed
qed

lemma polygons_blue: "filter is_blue (polygons pts ts :: 'g artist list) = polygons pts ts"
  by (induction ts) (auto simp: polygon_def is_blue_def split: sum.splits option.splits)

lemma draw_voronoi_blue:
  "draw_voronoi lib frame pts (a, out) = (a', out') \<Longrightarrow>
   filter is_blue (artists a') = filter is_blue (artists a)"
  by (auto simp: draw_voronoi_def Let_def is_blue_def comp_def split: sum.splits prod.splits option.splits)

lemma draw_delaunay_blue:
  assumes "draw_delaunay lib frame pts (a, out) = (a', out')"
  shows "filter is_blue (artists a') = filter is_blue (artists a) @
           (case Delaunay lib pts of Inl e \<Rightarrow> [] | Inr simplices \<Rightarrow> polygons pts simplices)"
proof (cases "Delaunay lib pts")
  case (Inl e)
  with assms show ?thesis by (auto simp: draw_delaunay_def)
next
  case (Inr simplices)
  obtain a1 r where p: "plot_simplices pts simplices a = (a1, r)" by (cases "plot_simplices pts simplices a")
  from plot_simplices_artists[OF p] have ar: "artists a1 = artists a @ polygons pts simplices" .
  show ?thesis
  proof (cases r)
    case None
    with assms Inr p have "draw_voronoi lib frame pts (a1, out) = (a', out')"
      by (simp add: draw_delaunay_def)
    from draw_voronoi_blue[OF this] ar Inr show ?thesis by (simp add: polygons_blue)
  next
    case (Some e)
    with assms Inr p have "a' = a1\<lparr>ax_title := DelaunayFailed (frame + 1) e\<rparr>"
      by (auto simp: draw_delaunay_def)
    with ar Inr show ?thesis by (simp add: polygons_blue)
  qed
qed

lemma update_points:
  fixes lib :: "('v, 'g) spatial"
  assumes "np_index points frame = Inr p"
  shows "\<exists>st'. update lib points frame st = Inr st' \<and> current_points st' = current_points st @ [p]
      \<and> drawn_triangulation (ax st') = triangulation_from_scratch lib (current_points st @ [p])"
proof (cases "length (current_points st @ [p]) \<ge> 3")
  case False
  with assms show ?thesis
    by (simp add: update_def Let_def drawn_triangulation_def triangulation_from_scratch_def
        ax_plot_def configure_axes_def ax_clear_def is_blue_def)
next
  case True
  let ?pts = "current_points st @ [p]"
  let ?a3 = "ax_plot (map fst ?pts) (map snd ?pts) ''ro''
     ((configure_axes ax_clear)\<lparr>ax_title := StepTitle (frame + 1) (length ?pts)\<rparr>) :: 'g axes"
  obtain a4 out where d: "draw_delaunay lib frame ?pts (?a3, stdout st) = (a4, out)"
    by (cases "draw_delaunay lib frame ?pts (?a3, stdout st)")
  have "filter is_blue (artists ?a3) = []"
    by (simp add: ax_plot_def configure_axes_def ax_clear_def is_blue_def)
  with draw_delaunay_blue[OF d] have
    "filter is_blue (artists a4) = (case Delaunay lib ?pts of Inl e \<Rightarrow> [] | Inr s \<Rightarrow> polygons ?pts s)"
    by simp
  with True assms d show ?thesis
    by (simp add: update_def Let_def drawn_triangulation_def triangulation_from_scratch_def)
qed

lemma frame_seq_numerals:
  "frame_seq 1 = [0, 0]" "frame_seq 2 = [0, 0, 1]" "frame_seq 3 = [0, 0, 1, 2]"
  "frame_seq 4 = [0, 0, 1, 2, 3]"
  by (simp_all add: frame_seq_def upt_rec)

lemma update_small:
  fixes lib :: "('v, 'g) spatial"
  assumes "np_index points frame = Inr p" and "length (current_points st) < 2"
  shows "update lib points frame st =
           Inr \<lparr>current_points = current_points st @ [p],
                ax = ax_plot (map fst (current_points st @ [p])) (map snd (current_points st @ [p])) ''ro''
                       ((configure_axes ax_clear)\<lparr>ax_title := StepTitle (frame + 1) (Suc (length (current_points st)))\<rparr>),
                stdout = stdout st\<rparr>"
  using assms by (simp add: update_def Let_def)

lemma update_delaunay_raises:
  fixes lib :: "('v, 'g) spatial"
  assumes "np_index points frame = Inr p" and "2 \<le> length (current_points st)"
    and "Delaunay lib (current_points st @ [p]) = Inl e"
  shows "update lib points frame st =
           Inr \<lparr>current_points = current_points st @ [p],
                ax = (ax_plot (map fst (current_points st @ [p])) (map snd (current_points st @ [p])) ''ro''
                       ((configure_axes ax_clear)\<lparr>ax_title := StepTitle (frame + 1) (Suc (length (current_points st)))\<rparr>))
                     \<lparr>ax_title := DelaunayFailed (frame + 1) e\<rparr>,
                stdout = stdout st\<rparr>"
  using assms by (simp add: update_def Let_def draw_delaunay_def)

lemma plot_simplices_valid:
  "\<forall>t \<in> set ts. \<not> isl (rows_of pts t) \<Longrightarrow>
   plot_simplices pts ts a = (a\<lparr>artists := artists a @ polygons pts ts\<rparr>, None)"
proof (induction ts arbitrary: a)
  case Nil
  then show ?case by simp
next
  case (Cons t ts)
  from Cons.prems obtain r where r: "rows_of pts t = Inr r" by (cases "rows_of pts t") auto
  from Cons.prems have "\<forall>t \<in> set ts. \<not> isl (rows_of pts t)" by simp
  from Cons.IH[OF this] r show ?case
    by (simp add: Let_def polygon_def ax_plot_def)
qed

lemma rand2_length: "length (fst (rand2 g n r)) = n"
proof (induction n arbitrary: r)
  case 0
  then show ?case by simp
next
  case (Suc n)
  obtain x r1 where a: "random_sample g r = (x, r1)" by (cases "random_sample g r")
  obtain y r2 where b: "random_sample g r1 = (y, r2)" by (cases "random_sample g r1")
  obtain rows r3 where c: "rand2 g n r2 = (rows, r3)" by (cases "rand2 g n r2")
  from Suc.IH[of r2] c have "length rows = n" by simp
  with a b c show ?case by simp
qed


lemma seed_and_centre_eq: "seed_and_centre = [(0.2, 0.2), (0.8, 0.2), (0.5, 0.8), (0.5, 0.5)]"
  by (simp add: seed_and_centre_def seed_points_def)

lemma seed_points_index0: "np_index seed_points 0 = Inr (0.2, 0.2)"
  by (simp add: np_index_def seed_points_def)

lemma seed_points_index2: "np_index seed_points 2 = Inr (0.5, 0.8)"
  by (simp add: np_index_def seed_points_def)

lemma collinear_seed_index2: "np_index collinear_seed 2 = Inr (2, 0)"
  by (simp add: np_index_def collinear_seed_def)

lemma one_point_state_eq:
  "one_point_state =
     \<lparr>current_points = [(0.2, 0.2)],
      ax = \<lparr>xlim = Some (0, 1), ylim = Some (0, 1), aspect_equal = True,
            ax_title = StepTitle 1 1, artists = [Line [0.2] [0.2] ''ro'']\<rparr>,
      stdout = []\<rparr>"
  by (simp add: one_point_state_def update_def np_index_def seed_points_def init_state_def
      Let_def ax_plot_def configure_axes_def ax_clear_def)

lemma two_seed_state_eq:
  "two_seed_state =
     \<lparr>current_points = [(0.2, 0.2), (0.8, 0.2)],
      ax = \<lparr>xlim = Some (0, 1), ylim = Some (0, 1), aspect_equal = True,
            ax_title = StepTitle 2 2, artists = [Line [0.2, 0.8] [0.2, 0.2] ''ro'']\<rparr>,
      stdout = []\<rparr>"
  by (simp add: two_seed_state_def update_def np_index_def seed_points_def init_state_def
      Let_def ax_plot_def configure_axes_def ax_clear_def)

lemma two_collinear_state_eq:
  "two_collinear_state =
     \<lparr>current_points = [(0, 0), (1, 0)],
      ax = \<lparr>xlim = Some (0, 1), ylim = Some (0, 1), aspect_equal = True,
            ax_title = StepTitle 2 2, artists = [Line [0, 1] [0, 0] ''ro'']\<rparr>,
      stdout = []\<rparr>"
  by (simp add: two_collinear_state_def update_def np_index_def collinear_seed_def init_state_def
      Let_def ax_plot_def configure_axes_def ax_clear_def)

lemma run_frames_valid:
  fixes lib :: "('v, 'g) spatial"
  assumes "\<forall>f \<in> set fs. \<not> isl (np_index points f)"
  shows "\<exists>st'. run_frames lib points fs st = Inr st'
           \<and> current_points st' = current_points st @ map (\<lambda>f. projr (np_index points f)) fs
           \<and> (fs \<noteq> [] \<longrightarrow>
                 drawn_triangulation (ax st') = triangulation_from_scratch lib (current_points st'))"
  using assms
proof (induction fs arbitrary: st)
  case Nil
  then show ?case by simp
next
  case (Cons f fs)
  from Cons.prems obtain p where p: "np_index points f = Inr p"
    by (cases "np_index points f") auto
  from update_points[OF p, of lib st] obtain st1 where
    u: "update lib points f st = Inr st1" and
    c: "current_points st1 = current_points st @ [p]" and
    d: "drawn_triangulation (ax st1) = triangulation_from_scratch lib (current_points st @ [p])"
    by blast
  from Cons.prems have v: "\<forall>f \<in> set fs. \<not> isl (np_index points f)" by simp
  from Cons.IH[OF v, of st1] obtain st' where
    r: "run_frames lib points fs st1 = Inr st'" and
    c': "current_points st' = current_points st1 @ map (\<lambda>f. projr (np_index points f)) fs" and
    d': "fs \<noteq> [] \<longrightarrow> drawn_triangulation (ax st') = triangulation_from_scratch lib (current_points st')"
    by blast
  show ?case
  proof (cases fs)
    case Nil
    with u c d r p show ?thesis by simp
  next
    case (Cons g gs)
    with u c r c' d' p show ?thesis by simp
  qed
qed



lemma frame_seq_prefix: "f < n \<Longrightarrow> take (f + 2) (frame_seq n) = frame_seq (Suc f)"
  by (simp add: frame_seq_def take_map)

lemma collinear_seed_and_apex_eq: "collinear_seed_and_apex = [(0, 0), (1, 0), (2, 0), (0, 1)]"
  by (simp add: collinear_seed_and_apex_def collinear_seed_def)

lemma flat_run_state_eq:
  "flat_run_state =
     \<lparr>current_points = [(0, 0), (0, 0), (1, 0)],
      ax = \<lparr>xlim = Some (0, 1), ylim = Some (0, 1), aspect_equal = True,
            ax_title = DelaunayFailed 2 (LibraryError ''QhullError''),
            artists = [Line [0, 0, 1] [0, 0, 0] ''ro'']\<rparr>,
      stdout = []\<rparr>"
  by (simp add: flat_run_state_def frame_seq_numerals update_def np_index_def
      collinear_seed_and_apex_eq init_state_def Let_def draw_delaunay_def lib_raising_def
      ax_plot_def configure_axes_def ax_clear_def)

section \<open>The stored list at each frame\<close>



section \<open>A point that is already stored\<close>

text \<open>
  Against claim C3 as stated. The script has no duplicate check and no
  \<open>DuplicatePointError\<close>. After frame 0 of the script's own seed, \<open>update(0)\<close> once
  more hands in the point \<open>(0.2, 0.2)\<close> that is already stored: \<open>update\<close> returns
  normally and the point is stored a second time.
\<close>

theorem duplicate_point_not_rejected:
  "\<not> isl (update lib_raising seed_points 0 one_point_state)
   \<and> current_points one_point_state = [(0.2, 0.2)]
   \<and> current_points (projr (update lib_raising seed_points 0 one_point_state)) = [(0.2, 0.2), (0.2, 0.2)]"
proof -
  have "length (current_points one_point_state) < 2" by (simp add: one_point_state_eq)
  from update_small[OF seed_points_index0 this, of lib_raising]
  show ?thesis by (simp add: one_point_state_eq)
qed

text \<open>
  Claim C3, amended. For every state and every new point \<open>all_points[frame]\<close> that
  coincides with a point already stored, \<open>update\<close> is not rejected: it returns
  normally, the point is appended again, so the list of stored points grows by one
  while the set of stored points stays the same.
\<close>

theorem duplicate_point_is_stored_again:
  fixes lib :: "('v, 'g) spatial"
  assumes "np_index points frame = Inr p" and "p \<in> set (current_points st)"
  shows "\<exists>st'. update lib points frame st = Inr st'
           \<and> current_points st' = current_points st @ [p]
           \<and> length (current_points st') = Suc (length (current_points st))
           \<and> set (current_points st') = set (current_points st)"
proof -
  from update_points[OF assms(1), of lib st] obtain st' where
    "update lib points frame st = Inr st'" "current_points st' = current_points st @ [p]"
    by blast
  with assms(2) show ?thesis by auto
qed

theorem duplicate_point_is_stored_again_witness:
  "np_index seed_points 0 = Inr (0.2, 0.2)
   \<and> (0.2, 0.2) \<in> set (current_points one_point_state)
   \<and> (\<exists>st'. update lib_raising seed_points 0 one_point_state = Inr st'
           \<and> current_points st' = [(0.2, 0.2), (0.2, 0.2)]
           \<and> length (current_points st') = Suc (length (current_points one_point_state)))"
proof -
  have m: "(0.2, 0.2) \<in> set (current_points one_point_state)" by (simp add: one_point_state_eq)
  from duplicate_point_is_stored_again[OF seed_points_index0 m, of lib_raising]
  show ?thesis using seed_points_index0 m by (auto simp: one_point_state_eq)
qed

section \<open>A collinear seed\<close>

text \<open>
  Against claim C4 as stated. With the collinear seed \<open>(0,0), (1,0), (2,0)\<close> as the
  point array and a triangulation routine that raises, the calls of the driver through
  frame 2 do not fail: every one returns normally, the points are stored, and the
  exception only shows in the title.
\<close>

theorem collinear_seed_no_fail_fast:
  "collinear (collinear_seed ! 0) (collinear_seed ! 1) (collinear_seed ! 2)
   \<and> \<not> isl (run_frames lib_raising collinear_seed (frame_seq 3) init_state)
   \<and> current_points (projr (run_frames lib_raising collinear_seed (frame_seq 3) init_state))
       = [(0, 0), (0, 0), (1, 0), (2, 0)]
   \<and> ax_title (ax (projr (run_frames lib_raising collinear_seed (frame_seq 3) init_state)))
       = DelaunayFailed 3 (LibraryError ''QhullError'')"
  by (simp add: collinear_def frame_seq_numerals update_def np_index_def collinear_seed_def
      init_state_def Let_def draw_delaunay_def lib_raising_def ax_plot_def configure_axes_def
      ax_clear_def)

text \<open>
  Claim C4, amended. The script has no \<open>CollinearSeedError\<close>, checks no seed and does
  not fail fast; its own seed is three fixed points that are not collinear. For every
  state and every point array: when the triangulation of the stored points raises an
  exception \<open>e\<close> in a frame (as for a flat, for instance collinear, configuration), no
  error leaves \<open>update\<close>: the exception is caught in that frame, the point stays
  stored, the frame's title reports \<open>e\<close> and no triangle is drawn in that frame; and
  every later sequence of calls of \<open>update\<close> with valid frame indices returns normally
  and stores its points.
\<close>

theorem raising_triangulation_is_caught:
  fixes lib :: "('v, 'g) spatial"
  assumes "np_index points frame = Inr p"
    and "3 \<le> length (current_points st @ [p])"
    and "Delaunay lib (current_points st @ [p]) = Inl e"
    and "\<forall>f \<in> set later. \<not> isl (np_index points f)"
  shows "\<not> collinear (seed_points ! 0) (seed_points ! 1) (seed_points ! 2)
         \<and> (\<exists>st'. update lib points frame st = Inr st'
               \<and> current_points st' = current_points st @ [p]
               \<and> ax_title (ax st') = DelaunayFailed (frame + 1) e
               \<and> drawn_triangulation (ax st') = []
               \<and> (\<exists>st''. run_frames lib points later st' = Inr st''
                     \<and> current_points st''
                         = current_points st' @ map (\<lambda>f. projr (np_index points f)) later))"
proof -
  have s: "\<not> collinear (seed_points ! 0) (seed_points ! 1) (seed_points ! 2)"
    by (simp add: collinear_def seed_points_def)
  from assms(2) have l: "2 \<le> length (current_points st)" by simp
  let ?st' = "\<lparr>current_points = current_points st @ [p],
                ax = (ax_plot (map fst (current_points st @ [p])) (map snd (current_points st @ [p])) ''ro''
                       ((configure_axes ax_clear)\<lparr>ax_title := StepTitle (frame + 1) (Suc (length (current_points st)))\<rparr>))
                     \<lparr>ax_title := DelaunayFailed (frame + 1) e\<rparr>,
                stdout = stdout st\<rparr> :: 'g state"
  have u: "update lib points frame st = Inr ?st'"
    by (rule update_delaunay_raises[OF assms(1) l assms(3)])
  have d: "drawn_triangulation (ax ?st') = []"
    by (simp add: drawn_triangulation_def is_blue_def ax_plot_def configure_axes_def ax_clear_def)
  from run_frames_valid[OF assms(4), of lib ?st'] obtain st'' where
    "run_frames lib points later ?st' = Inr st''"
    "current_points st'' = current_points ?st' @ map (\<lambda>f. projr (np_index points f)) later"
    by blast
  with s u d show ?thesis by simp
qed

theorem raising_triangulation_is_caught_witness:
  "np_index collinear_seed_and_apex 2 = Inr (2, 0)
   \<and> 3 \<le> length (current_points flat_run_state @ [(2, 0)])
   \<and> Delaunay lib_raising (current_points flat_run_state @ [(2, 0)]) = Inl (LibraryError ''QhullError'')
   \<and> \<not> isl (np_index collinear_seed_and_apex 3)
   \<and> (\<exists>st'. update lib_raising collinear_seed_and_apex 2 flat_run_state = Inr st'
          \<and> current_points st' = [(0, 0), (0, 0), (1, 0), (2, 0)]
          \<and> ax_title (ax st') = DelaunayFailed 3 (LibraryError ''QhullError'')
          \<and> drawn_triangulation (ax st') = []
          \<and> (\<exists>st''. run_frames lib_raising collinear_seed_and_apex [3] st' = Inr st''
                \<and> current_points st'' = [(0, 0), (0, 0), (1, 0), (2, 0), (0, 1)]))"
proof -
  have a: "np_index collinear_seed_and_apex 2 = Inr (2, 0)"
    by (simp add: np_index_def collinear_seed_and_apex_eq)
  have b: "3 \<le> length (current_points flat_run_state @ [(2, 0)])"
    by (simp add: flat_run_state_eq)
  have c: "Delaunay lib_raising (current_points flat_run_state @ [(2, 0)]) = Inl (LibraryError ''QhullError'')"
    by (simp add: lib_raising_def)
  have d': "\<not> isl (np_index collinear_seed_and_apex 3)"
    by (simp add: np_index_def collinear_seed_and_apex_eq)
  then have d: "\<forall>f \<in> set [3]. \<not> isl (np_index collinear_seed_and_apex f)" by simp
  have m: "map (\<lambda>f. projr (np_index collinear_seed_and_apex f)) [3] = [(0, 1)]"
    by (simp add: np_index_def collinear_seed_and_apex_eq)
  from raising_triangulation_is_caught[OF a b c d] obtain st' st'' where
    "update lib_raising collinear_seed_and_apex 2 flat_run_state = Inr st'"
    "current_points st' = current_points flat_run_state @ [(2, 0)]"
    "ax_title (ax st') = DelaunayFailed (2 + 1) (LibraryError ''QhullError'')"
    "drawn_triangulation (ax st') = []"
    "run_frames lib_raising collinear_seed_and_apex [3] st' = Inr st''"
    "current_points st'' = current_points st' @ map (\<lambda>f. projr (np_index collinear_seed_and_apex f)) [3]"
    by blast
  then have "update lib_raising collinear_seed_and_apex 2 flat_run_state = Inr st'
          \<and> current_points st' = [(0, 0), (0, 0), (1, 0), (2, 0)]
          \<and> ax_title (ax st') = DelaunayFailed 3 (LibraryError ''QhullError'')
          \<and> drawn_triangulation (ax st') = []
          \<and> run_frames lib_raising collinear_seed_and_apex [3] st' = Inr st''
          \<and> current_points st'' = [(0, 0), (0, 0), (1, 0), (2, 0), (0, 1)]"
    using m by (simp add: flat_run_state_eq)
  with a b c d' show ?thesis by blast
qed

section \<open>A frame whose triangulation fails\<close>

text \<open>
  Against claim C5 as stated. After frames 0 and 1 of the collinear seed, frame 2
  fails in the triangulation (the title says so), and the state afterwards is not the
  state before: the third point stays stored.
\<close>

theorem failed_frame_not_rolled_back:
  "\<not> isl (update lib_raising collinear_seed 2 two_collinear_state)
   \<and> ax_title (ax (projr (update lib_raising collinear_seed 2 two_collinear_state)))
       = DelaunayFailed 3 (LibraryError ''QhullError'')
   \<and> current_points two_collinear_state = [(0, 0), (1, 0)]
   \<and> current_points (projr (update lib_raising collinear_seed 2 two_collinear_state))
       = [(0, 0), (1, 0), (2, 0)]"
  by (simp add: update_def np_index_def collinear_seed_def two_collinear_state_eq init_state_def
      Let_def draw_delaunay_def lib_raising_def ax_plot_def configure_axes_def ax_clear_def)

text \<open>
  Claim C5, amended. A frame whose triangulation raises is not rolled back: the
  exception is caught, \<open>update\<close> returns normally, and the state afterwards keeps the
  appended point (so it differs from the state before); the axes have been cleared and
  show the point markers only, under the failure title; standard output is unchanged.
\<close>

theorem failed_frame_keeps_point:
  fixes lib :: "('v, 'g) spatial"
  assumes "np_index points frame = Inr p"
    and "3 \<le> length (current_points st @ [p])"
    and "Delaunay lib (current_points st @ [p]) = Inl e"
  shows "\<exists>st'. update lib points frame st = Inr st'
           \<and> current_points st' = current_points st @ [p]
           \<and> current_points st' \<noteq> current_points st
           \<and> ax_title (ax st') = DelaunayFailed (frame + 1) e
           \<and> artists (ax st') = [Line (map fst (current_points st')) (map snd (current_points st')) ''ro'']
           \<and> stdout st' = stdout st"
proof -
  from assms(2) have l: "2 \<le> length (current_points st)" by simp
  show ?thesis
    by (simp add: update_delaunay_raises[OF assms(1) l assms(3)] ax_plot_def configure_axes_def
        ax_clear_def)
qed

theorem failed_frame_keeps_point_witness:
  "np_index collinear_seed 2 = Inr (2, 0)
   \<and> 3 \<le> length (current_points two_collinear_state @ [(2, 0)])
   \<and> Delaunay lib_raising (current_points two_collinear_state @ [(2, 0)]) = Inl (LibraryError ''QhullError'')
   \<and> (\<exists>st'. update lib_raising collinear_seed 2 two_collinear_state = Inr st'
           \<and> current_points st' = [(0, 0), (1, 0), (2, 0)]
           \<and> ax_title (ax st') = DelaunayFailed 3 (LibraryError ''QhullError''))"
proof -
  have a: "3 \<le> length (current_points two_collinear_state @ [(2, 0)])"
    by (simp add: two_collinear_state_eq)
  have b: "Delaunay lib_raising (current_points two_collinear_state @ [(2, 0)]) = Inl (LibraryError ''QhullError'')"
    by (simp add: lib_raising_def)
  from failed_frame_keeps_point[OF collinear_seed_index2 a b] collinear_seed_index2 a b
  show ?thesis by (auto simp: two_collinear_state_eq)
qed

section \<open>A frame whose Voronoi diagram fails\<close>

text \<open>
  Against claim C8 as stated. With the script's seed and a Voronoi routine that
  raises, frame 2 returns normally, but no cell is flagged: the frame has no Voronoi
  artist at all and one line is printed, where the same frame with a Voronoi routine
  that succeeds shows the diagram. The extraction fails as a whole for that frame.
\<close>

theorem voronoi_failure_drops_whole_diagram:
  "\<not> isl (update lib_fan_no_voronoi seed_points 2 two_seed_state)
   \<and> filter is_voronoi (artists (ax (projr (update lib_fan_no_voronoi seed_points 2 two_seed_state)))) = []
   \<and> stdout (projr (update lib_fan_no_voronoi seed_points 2 two_seed_state))
       = [VoronoiFailed 2 (LibraryError ''QhullError'')]
   \<and> filter is_voronoi (artists (ax (projr (update lib_fan seed_points 2 two_seed_state))))
       = [VoronoiArtist ()]"
  by (simp add: update_def np_index_def seed_points_def two_seed_state_eq init_state_def
      Let_def draw_delaunay_def draw_voronoi_def lib_fan_no_voronoi_def lib_fan_def fan_def
      rows_of_def ax_plot_def configure_axes_def ax_clear_def is_voronoi_def)

text \<open>
  Claim C8, amended. When the triangulation of a frame has succeeded and been drawn
  and the Voronoi routine then raises an exception \<open>e\<close>, the failure is recoverable:
  \<open>update\<close> returns normally, the title is the step title, every triangle of the
  triangulation stays drawn, no Voronoi artist is drawn for that frame (the extraction
  is dropped as a whole, no cell is flagged), and one line reporting the frame and
  \<open>e\<close> is printed.
\<close>

theorem voronoi_failure_is_caught:
  fixes lib :: "('v, 'g) spatial"
  assumes "np_index points frame = Inr p"
    and "3 \<le> length (current_points st @ [p])"
    and "Delaunay lib (current_points st @ [p]) = Inr simplices"
    and "\<forall>t \<in> set simplices. \<not> isl (rows_of (current_points st @ [p]) t)"
    and "Voronoi lib (current_points st @ [p]) = Inl e"
  shows "\<exists>st'. update lib points frame st = Inr st'
           \<and> current_points st' = current_points st @ [p]
           \<and> ax_title (ax st') = StepTitle (frame + 1) (length (current_points st'))
           \<and> drawn_triangulation (ax st') = polygons (current_points st') simplices
           \<and> length (drawn_triangulation (ax st')) = length simplices
           \<and> filter is_voronoi (artists (ax st')) = []
           \<and> stdout st' = stdout st @ [VoronoiFailed frame e]"
proof -
  let ?pts = "current_points st @ [p]"
  have len: "length (polygons ?pts simplices :: 'g artist list) = length simplices"
    using assms(4)
  proof (induction simplices)
    case Nil
    then show ?case by simp
  next
    case (Cons t ts)
    then obtain r where "rows_of ?pts t = Inr r" by (cases "rows_of ?pts t") auto
    with Cons show ?case by (simp add: polygon_def)
  qed
  have nv: "filter is_voronoi (polygons ?pts simplices :: 'g artist list) = []"
    by (induction simplices) (auto simp: polygon_def is_voronoi_def split: sum.splits)
  show ?thesis
    using assms(1,2,3,5) len nv
    by (simp add: update_def Let_def draw_delaunay_def draw_voronoi_def
        plot_simplices_valid[OF assms(4)] drawn_triangulation_def polygons_blue
        ax_plot_def configure_axes_def ax_clear_def is_blue_def is_voronoi_def)
qed

theorem voronoi_failure_is_caught_witness:
  "np_index seed_points 2 = Inr (0.5, 0.8)
   \<and> 3 \<le> length (current_points two_seed_state @ [(0.5, 0.8)])
   \<and> Delaunay lib_fan_no_voronoi (current_points two_seed_state @ [(0.5, 0.8)]) = Inr [(0, 1, 2)]
   \<and> \<not> isl (rows_of (current_points two_seed_state @ [(0.5, 0.8)]) (0, 1, 2))
   \<and> Voronoi lib_fan_no_voronoi (current_points two_seed_state @ [(0.5, 0.8)]) = Inl (LibraryError ''QhullError'')
   \<and> (\<exists>st'. update lib_fan_no_voronoi seed_points 2 two_seed_state = Inr st'
           \<and> ax_title (ax st') = StepTitle 3 3
           \<and> drawn_triangulation (ax st') = [Line [0.2, 0.8, 0.5, 0.2] [0.2, 0.2, 0.8, 0.2] ''b-'']
           \<and> filter is_voronoi (artists (ax st')) = []
           \<and> stdout st' = [VoronoiFailed 2 (LibraryError ''QhullError'')])"
proof -
  have a: "3 \<le> length (current_points two_seed_state @ [(0.5, 0.8)])"
    by (simp add: two_seed_state_eq)
  have b: "Delaunay lib_fan_no_voronoi (current_points two_seed_state @ [(0.5, 0.8)]) = Inr [(0, 1, 2)]"
    by (simp add: lib_fan_no_voronoi_def fan_def two_seed_state_eq)
  have c': "\<not> isl (rows_of (current_points two_seed_state @ [(0.5, 0.8)]) (0, 1, 2))"
    by (simp add: rows_of_def np_index_def two_seed_state_eq)
  then have c: "\<forall>t \<in> set [(0, 1, 2)]. \<not> isl (rows_of (current_points two_seed_state @ [(0.5, 0.8)]) t)"
    by simp
  have d: "Voronoi lib_fan_no_voronoi (current_points two_seed_state @ [(0.5, 0.8)]) = Inl (LibraryError ''QhullError'')"
    by (simp add: lib_fan_no_voronoi_def)
  have p: "polygons (current_points two_seed_state @ [(0.5, 0.8)]) [(0, 1, 2)]
             = [Line [0.2, 0.8, 0.5, 0.2] [0.2, 0.2, 0.8, 0.2] ''b-'' :: unit artist]"
    by (simp add: polygon_def rows_of_def np_index_def two_seed_state_eq)
  have s: "stdout two_seed_state = []" by (simp add: two_seed_state_eq init_state_def)
  from voronoi_failure_is_caught[OF seed_points_index2 a b c d] obtain st' where
    "update lib_fan_no_voronoi seed_points 2 two_seed_state = Inr st'"
    "current_points st' = current_points two_seed_state @ [(0.5, 0.8)]"
    "ax_title (ax st') = StepTitle (2 + 1) (length (current_points st'))"
    "drawn_triangulation (ax st') = polygons (current_points st') [(0, 1, 2)]"
    "filter is_voronoi (artists (ax st')) = []"
    "stdout st' = stdout two_seed_state @ [VoronoiFailed 2 (LibraryError ''QhullError'')]"
    by blast
  then have "update lib_fan_no_voronoi seed_points 2 two_seed_state = Inr st'
           \<and> ax_title (ax st') = StepTitle 3 3
           \<and> drawn_triangulation (ax st') = [Line [0.2, 0.8, 0.5, 0.2] [0.2, 0.2, 0.8, 0.2] ''b-'']
           \<and> filter is_voronoi (artists (ax st')) = []
           \<and> stdout st' = [VoronoiFailed 2 (LibraryError ''QhullError'')]"
    using p s by (simp add: two_seed_state_eq)
  then show ?thesis using seed_points_index2 a b c' d by blast
qed

section \<open>Determinism across runs\<close>

text \<open>
  Claim C9. The generator is seeded with the constant 42 when the module is loaded,
  so \<open>all_points\<close> does not depend on the state \<open>r0\<close> the generator is in when the run
  starts: it is the three fixed seed points followed by the 1000 points generated from
  seed 42 (1003 points), the same in every run. Hence the whole animation, and the
  state after every frame \<open>f\<close>, is the same in every run.
\<close>

theorem all_points_fixed_by_seed:
  fixes lib :: "('v, 'g) spatial"
  shows "all_points g r0 = all_points g r0'
   \<and> all_points g r0 = seed_points @ fst (rand2 g 1000 (seed g 42))
   \<and> length (all_points g r0) = 1003
   \<and> take 3 (all_points g r0) = [(0.2, 0.2), (0.8, 0.2), (0.5, 0.8)]
   \<and> (main lib g r0 :: exn + 'g state) = main lib g r0'
   \<and> (\<forall>f. (run_frames lib (all_points g r0) (frame_seq (Suc f)) init_state :: exn + 'g state)
            = run_frames lib (all_points g r0') (frame_seq (Suc f)) init_state)"
proof -
  have e: "all_points g r0 = all_points g r0'" by (simp add: all_points_def)
  have d: "all_points g r0 = seed_points @ fst (rand2 g 1000 (seed g 42))"
    by (simp add: all_points_def POINT_COUNT_def)
  have l: "length (all_points g r0) = 1003"
    by (simp add: d rand2_length seed_points_def)
  have t: "take 3 (all_points g r0) = [(0.2, 0.2), (0.8, 0.2), (0.5, 0.8)]"
    by (simp add: d seed_points_def)
  have m: "(main lib g r0 :: exn + 'g state) = main lib g r0'"
    by (simp add: main_def all_points_def)
  from e d l t m show ?thesis by simp
qed

section \<open>Frames with fewer than three points\<close>

text \<open>
  Claim C10. In a frame whose point set (after the append) has fewer than three
  points, \<open>update\<close> draws the point markers and nothing else, prints nothing, sets the
  step title and returns normally. It does not call the library: the result is the
  same for every library \<open>lib'\<close>, also one whose routines always raise, so no
  exception of the geometry can arise in such a frame.
\<close>

theorem no_geometry_below_three_points:
  fixes lib :: "('v, 'g) spatial" and lib' :: "('w, 'g) spatial"
  assumes "np_index points frame = Inr p" and "length (current_points st @ [p]) < 3"
  shows "\<exists>st'. update lib points frame st = Inr st'
           \<and> current_points st' = current_points st @ [p]
           \<and> artists (ax st') = [Line (map fst (current_points st')) (map snd (current_points st')) ''ro'']
           \<and> ax_title (ax st') = StepTitle (frame + 1) (length (current_points st'))
           \<and> stdout st' = stdout st
           \<and> update lib' points frame st = Inr st'"
proof -
  from assms(2) have small: "length (current_points st) < 2" by simp
  show ?thesis
    by (simp add: update_small[OF assms(1) small] ax_plot_def configure_axes_def ax_clear_def)
qed

theorem no_geometry_below_three_points_witness:
  "np_index seed_points 0 = Inr (0.2, 0.2)
   \<and> length (current_points one_point_state @ [(0.2, 0.2)]) < 3
   \<and> (\<exists>st'. update lib_raising seed_points 0 one_point_state = Inr st'
           \<and> artists (ax st') = [Line [0.2, 0.2] [0.2, 0.2] ''ro'']
           \<and> ax_title (ax st') = StepTitle 1 2
           \<and> stdout st' = []
           \<and> update lib_fan seed_points 0 one_point_state = Inr st')"
proof -
  have l: "length (current_points one_point_state @ [(0.2, 0.2)]) < 3"
    by (simp add: one_point_state_eq)
  from no_geometry_below_three_points[OF seed_points_index0 l, of lib_raising lib_fan]
  obtain st' where u: "update lib_raising seed_points 0 one_point_state = Inr st'"
    and c: "current_points st' = current_points one_point_state @ [(0.2, 0.2)]"
    and a: "artists (ax st') = [Line (map fst (current_points st')) (map snd (current_points st')) ''ro'']"
    and t: "ax_title (ax st') = StepTitle (0 + 1) (length (current_points st'))"
    and s: "stdout st' = stdout one_point_state"
    and u': "update lib_fan seed_points 0 one_point_state = Inr st'"
    by blast
  have "artists (ax st') = [Line [0.2, 0.2] [0.2, 0.2] ''ro'']"
    using a c by (simp add: one_point_state_eq)
  moreover have "ax_title (ax st') = StepTitle 1 2" using t c by (simp add: one_point_state_eq)
  moreover have "stdout st' = []" using s by (simp add: one_point_state_eq init_state_def)
  ultimately show ?thesis using seed_points_index0 l u u' by blast
qed

end
